theory Spec2Isabelle
  imports Main
begin

section \<open>Data model (backend/game.go, backend/main.go)\<close>

text \<open>
  A \<^verbatim>\<open>*websocket.Conn\<close> is a pointer: \<open>None\<close> is \<^verbatim>\<open>nil\<close>, \<open>Some c\<close> points to the
  connection \<open>c\<close>. The handler keeps going with a nil pointer when the upgrade fails
  (main.go logs the error and does not return), so nil is an input the functions below
  can receive.
\<close>

type_synonym conn = nat

record Message =
  Type :: string
  Color :: string
  From :: string
  To :: string
  Promotion :: string

record ChessGame =
  whiteWebsocket :: "conn option"
  blackWebsocket :: "conn option"

datatype error = ErrCannotJoinStartedGame

text \<open>The two channels that \<^verbatim>\<open>Join\<close> makes for one game, named as the source names them.\<close>

datatype channel = whiteChannel | blackChannel

text \<open>A \<^verbatim>\<open>go\<close> statement of \<^verbatim>\<open>Join\<close>: the function started and its arguments.\<close>

datatype goroutine =
    GoPlayChess "conn option" "conn option"
  | GoForwardFromWebsocketToChannel "conn option" channel

text \<open>
  The Go literals \<^verbatim>\<open>Message{Type: "start", Color: "white"}\<close>,
  \<^verbatim>\<open>Message{Type: "start", Color: "black"}\<close> and \<^verbatim>\<open>Message{Type: "error"}\<close>: the fields
  left out are the empty string.
\<close>

definition start_white :: Message where
  "start_white = \<lparr>Type = ''start'', Color = ''white'', From = [], To = [], Promotion = []\<rparr>"

definition start_black :: Message where
  "start_black = \<lparr>Type = ''start'', Color = ''black'', From = [], To = [], Promotion = []\<rparr>"

definition error_signal :: Message where
  "error_signal = \<lparr>Type = ''error'', Color = [], From = [], To = [], Promotion = []\<rparr>"

text \<open>
  The struct tag of \<^verbatim>\<open>To\<close> is \<^verbatim>\<open>validate:"required_if=Type move"\<close>: the field must not be
  empty when \<^verbatim>\<open>Type\<close> is \<^verbatim>\<open>move\<close>. No function of the repository evaluates the tags.
\<close>

definition to_required_if_move :: "Message \<Rightarrow> bool" where
  "to_required_if_move m = (if Type m = ''move'' then To m \<noteq> [] else True)"

section \<open>Sessions: NewChessGame and Join\<close>

definition NewChessGame :: "conn option \<Rightarrow> ChessGame" where
  "NewChessGame ws = \<lparr>whiteWebsocket = ws, blackWebsocket = None\<rparr>"

text \<open>
  \<^verbatim>\<open>Join\<close> mutates the game it is called on and starts three goroutines; the model returns
  the error (\<open>None\<close> is Go's \<^verbatim>\<open>nil\<close> error), the game after the call and the goroutines
  started, in the order of the \<^verbatim>\<open>go\<close> statements.
\<close>

definition Join :: "ChessGame \<Rightarrow> conn option \<Rightarrow> error option \<times> ChessGame \<times> goroutine list" where
  "Join g ws =
     (if blackWebsocket g \<noteq> None then (Some ErrCannotJoinStartedGame, g, [])
      else
        (let g' = g\<lparr>blackWebsocket := ws\<rparr> in
         (None, g',
          [GoPlayChess (whiteWebsocket g') (blackWebsocket g'),
           GoForwardFromWebsocketToChannel (whiteWebsocket g') whiteChannel,
           GoForwardFromWebsocketToChannel (blackWebsocket g') blackChannel])))"

section \<open>The relay loop: playChess\<close>

text \<open>
  The state of one \<^verbatim>\<open>playChess\<close> goroutine: its local \<^verbatim>\<open>turnWhite\<close>, the \<^verbatim>\<open>WriteJSON\<close>
  calls it has made so far (connection and value, oldest first) and whether it is still
  running, has returned, or has panicked. \<^verbatim>\<open>WriteJSON\<close> on a nil connection
  dereferences nil and panics; its error result is dropped by every caller.
\<close>

datatype relay_status = Running | Returned | Panicked

record relay =
  turnWhite :: bool
  sent :: "(conn \<times> Message) list"
  status :: relay_status

definition WriteJSON :: "conn option \<Rightarrow> Message \<Rightarrow> relay \<Rightarrow> relay" where
  "WriteJSON ws v r =
     (if status r \<noteq> Running then r
      else (case ws of
              None \<Rightarrow> r\<lparr>status := Panicked\<rparr>
            | Some c \<Rightarrow> r\<lparr>sent := sent r @ [(c, v)]\<rparr>))"

definition assign_turnWhite :: "bool \<Rightarrow> relay \<Rightarrow> relay" where
  "assign_turnWhite v r = (if status r \<noteq> Running then r else r\<lparr>turnWhite := v\<rparr>)"

text \<open>
  One \<^verbatim>\<open>select\<close>: the event \<open>(ch, message)\<close> says that \<open>message\<close> was received from
  channel \<open>ch\<close>. Which channel is served next is the input of the model.
\<close>

fun select_case :: "conn option \<Rightarrow> conn option \<Rightarrow> channel \<times> Message \<Rightarrow> relay \<Rightarrow> relay" where
  "select_case whiteWs blackWs (whiteChannel, message) r =
     (if Type message = ''error'' then r\<lparr>status := Returned\<rparr>
      else if turnWhite r then assign_turnWhite False (WriteJSON blackWs message r)
      else r)"
| "select_case whiteWs blackWs (blackChannel, message) r =
     (if Type message = ''error'' then r\<lparr>status := Returned\<rparr>
      else if \<not> turnWhite r then assign_turnWhite True (WriteJSON whiteWs message r)
      else r)"

text \<open>
  The \<^verbatim>\<open>for\<close> loop over the messages that arrive. When none is left the goroutine is
  blocked in \<^verbatim>\<open>select\<close>: the state is returned with status \<open>Running\<close>. Once the loop has
  returned or panicked no later message is received.
\<close>

fun relay_loop :: "conn option \<Rightarrow> conn option \<Rightarrow> relay \<Rightarrow> (channel \<times> Message) list \<Rightarrow> relay" where
  "relay_loop whiteWs blackWs r [] = r"
| "relay_loop whiteWs blackWs r (ev # evs) =
     (if status r \<noteq> Running then r
      else relay_loop whiteWs blackWs (select_case whiteWs blackWs ev r) evs)"

definition relay_start :: "conn option \<Rightarrow> conn option \<Rightarrow> relay" where
  "relay_start whiteWs blackWs =
     WriteJSON blackWs start_black
       (WriteJSON whiteWs start_white \<lparr>turnWhite = True, sent = [], status = Running\<rparr>)"

definition playChess :: "conn option \<Rightarrow> conn option \<Rightarrow> (channel \<times> Message) list \<Rightarrow> relay" where
  "playChess whiteWs blackWs evs = relay_loop whiteWs blackWs (relay_start whiteWs blackWs) evs"

text \<open>How many messages the loop receives from channel \<open>ch\<close> before it stops receiving.\<close>

fun receives :: "channel \<Rightarrow> conn option \<Rightarrow> conn option \<Rightarrow> relay \<Rightarrow> (channel \<times> Message) list \<Rightarrow> nat" where
  "receives ch whiteWs blackWs r [] = 0"
| "receives ch whiteWs blackWs r (ev # evs) =
     (if status r \<noteq> Running then 0
      else (if fst ev = ch then 1 else 0)
           + receives ch whiteWs blackWs (select_case whiteWs blackWs ev r) evs)"

section \<open>The reader task: forwardFromWebsocketToChannel\<close>

text \<open>
  The input is the list of results of the successive \<^verbatim>\<open>ReadJSON\<close> calls (\<open>None\<close>: the call
  returned an error) and the number \<open>k\<close> of messages the other end still receives from the
  channel. The channel is unbuffered (\<^verbatim>\<open>make(chan Message)\<close>), so a send completes only
  when it is received: with \<open>k = 0\<close> the goroutine stays blocked in the send. When the
  results run out the goroutine is blocked in \<^verbatim>\<open>ReadJSON\<close>. The result is the list of
  messages sent on the channel and where the goroutine ended up.
\<close>

datatype reader_status = Reading | Sending | Finished | Crashed

fun reader_loop :: "nat \<Rightarrow> Message option list \<Rightarrow> Message list \<times> reader_status" where
  "reader_loop k [] = ([], Reading)"
| "reader_loop k (res # rest) =
     (case res of
        None \<Rightarrow>
          (case k of
             0 \<Rightarrow> ([], Sending)
           | Suc k' \<Rightarrow> ([error_signal], Finished))
      | Some message \<Rightarrow>
          (case k of
             0 \<Rightarrow> ([], Sending)
           | Suc k' \<Rightarrow> (case reader_loop k' rest of (ms, st) \<Rightarrow> (message # ms, st))))"

record reader =
  published :: "Message list"
  closed :: bool
  rstatus :: reader_status

text \<open>
  \<^verbatim>\<open>defer ws.Close()\<close> runs when the function returns. On a nil connection the first
  \<^verbatim>\<open>ReadJSON\<close> panics.
\<close>

definition forwardFromWebsocketToChannel :: "conn option \<Rightarrow> nat \<Rightarrow> Message option list \<Rightarrow> reader" where
  "forwardFromWebsocketToChannel ws k reads =
     (case ws of
        None \<Rightarrow> \<lparr>published = [], closed = False, rstatus = Crashed\<rparr>
      | Some c \<Rightarrow>
          (case reader_loop k reads of
             (ms, st) \<Rightarrow> \<lparr>published = ms, closed = (st = Finished), rstatus = st\<rparr>))"

section \<open>The wire: ReadJSON and WriteJSON\<close>








section \<open>The matchmaker: wsHandler\<close>

text \<open>
  The global \<^verbatim>\<open>game\<close> is the only reference to an open game, so the game it points to is
  kept in the variable itself (\<open>None\<close> is \<^verbatim>\<open>nil\<close>). \<open>spawned\<close> lists the goroutines
  started so far. net/http runs every call of the handler in a goroutine of its own and
  nothing guards the global, so the statements of different calls interleave. A call is
  therefore a sequence of steps, one for each statement that touches the global: the
  test \<^verbatim>\<open>game == nil\<close>, then either the assignment of a new game, or the call of \<^verbatim>\<open>Join\<close>
  followed by the assignment of \<^verbatim>\<open>nil\<close>. \<open>calls\<close> holds, for each call, the pointer
  \<^verbatim>\<open>upgrader.Upgrade\<close> returned to it (nil when the upgrade failed: the handler logs the
  error and goes on) and the statement it has reached.
\<close>

datatype handler_pc = AtTest | AtCreate | AtJoin | AtClear | HandlerDone | HandlerPanicked

record server =
  game :: "ChessGame option"
  spawned :: "goroutine list"
  alive :: bool
  calls :: "(conn option \<times> handler_pc) list"

text \<open>
  A goroutine that is started with a nil connection dereferences it at once (\<^verbatim>\<open>WriteJSON\<close>
  in \<^verbatim>\<open>playChess\<close>, \<^verbatim>\<open>ReadJSON\<close> in the reader task). Nothing recovers a panic in these
  goroutines, so the process exits: \<open>alive\<close> becomes false and no call takes a step any
  more.
\<close>

fun goroutine_panics :: "goroutine \<Rightarrow> bool" where
  "goroutine_panics (GoPlayChess whiteWs blackWs) =
     (status (playChess whiteWs blackWs []) = Panicked)"
| "goroutine_panics (GoForwardFromWebsocketToChannel ws ch) =
     (rstatus (forwardFromWebsocketToChannel ws 0 []) = Crashed)"

text \<open>
  One statement of one call. \<^verbatim>\<open>game.Join(ws)\<close> reads the global again: when another call
  has set it to nil in between, \<^verbatim>\<open>Join\<close> dereferences nil and the call panics (net/http
  recovers a panic of a handler, the process goes on).
\<close>

fun wsHandler_step :: "conn option \<Rightarrow> handler_pc \<Rightarrow> server \<Rightarrow> handler_pc \<times> server" where
  "wsHandler_step ws AtTest s = (if game s = None then (AtCreate, s) else (AtJoin, s))"
| "wsHandler_step ws AtCreate s = (HandlerDone, s\<lparr>game := Some (NewChessGame ws)\<rparr>)"
| "wsHandler_step ws AtJoin s =
     (case game s of
        None \<Rightarrow> (HandlerPanicked, s)
      | Some g \<Rightarrow>
          (case Join g ws of
             (err, g', gs) \<Rightarrow>
               (AtClear,
                s\<lparr>game := Some g', spawned := spawned s @ gs,
                  alive := (alive s \<and> \<not> list_ex goroutine_panics gs)\<rparr>)))"
| "wsHandler_step ws AtClear s = (HandlerDone, s\<lparr>game := None\<rparr>)"
| "wsHandler_step ws HandlerDone s = (HandlerDone, s)"
| "wsHandler_step ws HandlerPanicked s = (HandlerPanicked, s)"

text \<open>Call number \<open>i\<close> executes its next statement.\<close>

definition handler_step :: "nat \<Rightarrow> server \<Rightarrow> server" where
  "handler_step i s =
     (if alive s \<and> i < length (calls s) then
        (case calls s ! i of
           (ws, pc) \<Rightarrow>
             (case wsHandler_step ws pc s of
                (pc', s') \<Rightarrow> s'\<lparr>calls := (calls s)[i := (ws, pc')]\<rparr>))
      else s)"

text \<open>A schedule names, step by step, the call that runs next.\<close>

fun run_schedule :: "nat list \<Rightarrow> server \<Rightarrow> server" where
  "run_schedule [] s = s"
| "run_schedule (i # sched) s = run_schedule sched (handler_step i s)"

text \<open>The server with no open game and one call, not yet started, for each arrival.\<close>

definition arrivals :: "conn option list \<Rightarrow> server" where
  "arrivals wss =
     \<lparr>game = None, spawned = [], alive = True, calls = map (\<lambda>ws. (ws, AtTest)) wss\<rparr>"

section \<open>Messages used in the examples\<close>

definition e2e4 :: Message where
  "e2e4 = \<lparr>Type = ''move'', Color = ''white'', From = ''e2'', To = ''e4'', Promotion = []\<rparr>"

definition e7e5 :: Message where
  "e7e5 = \<lparr>Type = ''move'', Color = ''black'', From = ''e7'', To = ''e5'', Promotion = []\<rparr>"

text \<open>An error-kind message written by a client, with the other fields filled in.\<close>

definition client_error :: Message where
  "client_error =
     \<lparr>Type = ''error'', Color = ''black'', From = ''e7'', To = ''e5'', Promotion = ''q''\<rparr>"

text \<open>A move whose \<^verbatim>\<open>to\<close> field is missing: \<^verbatim>\<open>ReadJSON\<close> leaves the field empty.\<close>

definition move_without_to :: Message where
  "move_without_to =
     \<lparr>Type = ''move'', Color = ''white'', From = ''e2'', To = [], Promotion = ''q''\<rparr>"

section \<open>Facts about the relay loop\<close>

lemma relay_loop_stopped: "status r \<noteq> Running \<Longrightarrow> relay_loop w b r evs = r"
  by (cases evs) simp_all

lemma relay_loop_append:
  "relay_loop w b r (xs @ ys) = relay_loop w b (relay_loop w b r xs) ys"
proof (induction xs arbitrary: r)
  case Nil
  show ?case by simp
next
  case (Cons ev xs)
  show ?case
  proof (cases "status r = Running")
    case True
    with Cons.IH show ?thesis by simp
  next
    case False
    then show ?thesis by (simp add: relay_loop_stopped)
  qed
qed



lemma relay_start_Some:
  "relay_start (Some w) (Some b) =
     \<lparr>turnWhite = True, sent = [(w, start_white), (b, start_black)], status = Running\<rparr>"
  by (simp add: relay_start_def WriteJSON_def)


lemma playChess_snoc:
  "playChess w b (evs @ [ev]) =
     (if status (playChess w b evs) = Running then select_case w b ev (playChess w b evs)
      else playChess w b evs)"
  by (simp add: playChess_def relay_loop_append)




section \<open>Facts about the reader task and the wire\<close>

lemma reader_loop_failure:
  "reader_loop k (map Some oks @ None # rest) =
     (take k (oks @ [error_signal]), if length oks < k then Finished else Sending)"
proof (induction oks arbitrary: k)
  case Nil
  show ?case by (cases k) simp_all
next
  case (Cons m oks)
  show ?case
  proof (cases k)
    case 0
    then show ?thesis by simp
  next
    case (Suc k')
    with Cons.IH[of k'] show ?thesis by simp
  qed
qed

lemma reader_loop_no_failure:
  "reader_loop k (map Some oks) = (take k oks, if length oks \<le> k then Reading else Sending)"
proof (induction oks arbitrary: k)
  case Nil
  show ?case by simp
next
  case (Cons m oks)
  show ?case
  proof (cases k)
    case 0
    then show ?thesis by simp
  next
    case (Suc k')
    with Cons.IH[of k'] show ?thesis by simp
  qed
qed

text \<open>
  A reader whose reads succeed for \<open>oks\<close> and then fail publishes \<open>oks\<close> and one
  error signal, as far as the other end receives them.
\<close>

lemma reader_publishes_up_to_failure:
  "forwardFromWebsocketToChannel (Some c) k (map Some oks @ None # rest) =
     \<lparr>published = take k (oks @ [error_signal]),
      closed = (length oks < k),
      rstatus = (if length oks < k then Finished else Sending)\<rparr>"
  by (simp add: forwardFromWebsocketToChannel_def reader_loop_failure)


section \<open>Turn alternation in the relay loop\<close>

text \<open>
  C1. In an active session (both connections present) \<^verbatim>\<open>playChess\<close> enters its loop
  running, with the turn set to white and the two start messages written. Take any
  messages \<open>evs\<close> after which the loop is still running, and let one more message
  arrive that is not error-kind. From the side whose turn it is, it is written to the
  other side's connection and the turn flips, and nothing else changes. From the side
  that does not hold the turn, the state of the loop stays exactly as it was: nothing is
  written, the turn is unchanged and the loop keeps running. A message of any kind from
  the side that does not hold the turn is never written and never changes the turn.
\<close>

theorem relay_turn_alternation:
  assumes "status (playChess (Some w) (Some b) evs) = Running"
  shows "playChess (Some w) (Some b) [] =
      \<lparr>turnWhite = True, sent = [(w, start_white), (b, start_black)], status = Running\<rparr> \<and>
    (Type m \<noteq> ''error'' \<and> turnWhite (playChess (Some w) (Some b) evs) \<longrightarrow>
       playChess (Some w) (Some b) (evs @ [(whiteChannel, m)]) =
         (playChess (Some w) (Some b) evs)
           \<lparr>sent := sent (playChess (Some w) (Some b) evs) @ [(b, m)], turnWhite := False\<rparr> \<and>
       playChess (Some w) (Some b) (evs @ [(blackChannel, m)]) =
         playChess (Some w) (Some b) evs) \<and>
    (Type m \<noteq> ''error'' \<and> \<not> turnWhite (playChess (Some w) (Some b) evs) \<longrightarrow>
       playChess (Some w) (Some b) (evs @ [(blackChannel, m)]) =
         (playChess (Some w) (Some b) evs)
           \<lparr>sent := sent (playChess (Some w) (Some b) evs) @ [(w, m)], turnWhite := True\<rparr> \<and>
       playChess (Some w) (Some b) (evs @ [(whiteChannel, m)]) =
         playChess (Some w) (Some b) evs) \<and>
    (turnWhite (playChess (Some w) (Some b) evs) \<longrightarrow>
       sent (playChess (Some w) (Some b) (evs @ [(blackChannel, m)])) =
         sent (playChess (Some w) (Some b) evs) \<and>
       turnWhite (playChess (Some w) (Some b) (evs @ [(blackChannel, m)]))) \<and>
    (\<not> turnWhite (playChess (Some w) (Some b) evs) \<longrightarrow>
       sent (playChess (Some w) (Some b) (evs @ [(whiteChannel, m)])) =
         sent (playChess (Some w) (Some b) evs) \<and>
       \<not> turnWhite (playChess (Some w) (Some b) (evs @ [(whiteChannel, m)])))"
proof -
  let ?r = "playChess (Some w) (Some b) evs"
  have start: "playChess (Some w) (Some b) [] =
      \<lparr>turnWhite = True, sent = [(w, start_white), (b, start_black)], status = Running\<rparr>"
    by (simp add: playChess_def relay_start_Some)
  have snoc: "playChess (Some w) (Some b) (evs @ [ev]) = select_case (Some w) (Some b) ev ?r"
    for ev
    using assms by (simp add: playChess_snoc)
  have white: "select_case (Some w) (Some b) (whiteChannel, m) ?r =
      (if Type m = ''error'' then ?r\<lparr>status := Returned\<rparr>
       else if turnWhite ?r then ?r\<lparr>sent := sent ?r @ [(b, m)], turnWhite := False\<rparr>
       else ?r)"
    using assms by (simp add: WriteJSON_def assign_turnWhite_def)
  have black: "select_case (Some w) (Some b) (blackChannel, m) ?r =
      (if Type m = ''error'' then ?r\<lparr>status := Returned\<rparr>
       else if \<not> turnWhite ?r then ?r\<lparr>sent := sent ?r @ [(w, m)], turnWhite := True\<rparr>
       else ?r)"
    using assms by (simp add: WriteJSON_def assign_turnWhite_def)
  show ?thesis
    unfolding snoc white black using start by simp
qed

text \<open>
  The run of the specification's test, message after message: a black move before any
  white move is dropped and the loop goes on as before; the white move that follows
  goes to black and gives black the turn; black's move then goes to white.
\<close>

theorem relay_turn_alternation_witness:
  "playChess (Some 2) (Some 3) [(blackChannel, e7e5)] =
     \<lparr>turnWhite = True, sent = [(2, start_white), (3, start_black)], status = Running\<rparr> \<and>
   playChess (Some 2) (Some 3) [(blackChannel, e7e5), (whiteChannel, e2e4)] =
     \<lparr>turnWhite = False, sent = [(2, start_white), (3, start_black), (3, e2e4)],
      status = Running\<rparr> \<and>
   playChess (Some 2) (Some 3) [(blackChannel, e7e5), (whiteChannel, e2e4), (blackChannel, e7e5)] =
     \<lparr>turnWhite = True,
      sent = [(2, start_white), (3, start_black), (3, e2e4), (2, e7e5)],
      status = Running\<rparr>"
proof -
  let ?p = "playChess (Some 2) (Some 3)"
  have t: "Type e2e4 \<noteq> ''error''" "Type e7e5 \<noteq> ''error''"
    by (simp_all add: e2e4_def e7e5_def)
  have p0: "?p [] =
     \<lparr>turnWhite = True, sent = [(2, start_white), (3, start_black)], status = Running\<rparr>"
    by (simp add: playChess_def relay_start_Some)
  then have h0: "status (?p []) = Running" by simp
  have p1: "?p [(blackChannel, e7e5)] = ?p []"
    using relay_turn_alternation[OF h0, of e7e5] t p0 by simp
  then have h1: "status (?p [(blackChannel, e7e5)]) = Running"
    using h0 by simp
  have p2: "?p [(blackChannel, e7e5), (whiteChannel, e2e4)] =
     \<lparr>turnWhite = False, sent = [(2, start_white), (3, start_black), (3, e2e4)],
      status = Running\<rparr>"
    using relay_turn_alternation[OF h1, of e2e4] t p1 p0 by simp
  then have h2: "status (?p [(blackChannel, e7e5), (whiteChannel, e2e4)]) = Running"
    by simp
  have p3: "?p [(blackChannel, e7e5), (whiteChannel, e2e4), (blackChannel, e7e5)] =
     \<lparr>turnWhite = True,
      sent = [(2, start_white), (3, start_black), (3, e2e4), (2, e7e5)],
      status = Running\<rparr>"
    using relay_turn_alternation[OF h2, of e7e5] t p2 by simp
  from p0 p1 p2 p3 show ?thesis by simp
qed

section \<open>Pairing under concurrent arrivals\<close>

text \<open>
  C2. Two connections that arrive at the same time are not paired. Both calls of the
  handler test \<^verbatim>\<open>game == nil\<close> before either assigns, so both take the branch that
  creates a game: the second assignment overwrites the first, no \<^verbatim>\<open>Join\<close> is called, no
  goroutine is started, and the first connection belongs to no game any more. When the
  two calls do not overlap, the same arrivals are paired, the first as white and the
  second as black, and the record is cleared. After a failed upgrade the handler goes
  on with a nil connection, which becomes the white side of a game; the goroutines
  started for it when the next connection joins dereference nil, the process exits, and
  the connections that arrive afterwards are never paired.
\<close>

theorem simultaneous_arrivals_are_not_paired:
  "run_schedule [0, 1, 0, 1] (arrivals [Some 2, Some 3]) =
     \<lparr>game = Some \<lparr>whiteWebsocket = Some 3, blackWebsocket = None\<rparr>,
      spawned = [], alive = True,
      calls = [(Some 2, HandlerDone), (Some 3, HandlerDone)]\<rparr> \<and>
   run_schedule [0, 0, 1, 1, 1] (arrivals [Some 2, Some 3]) =
     \<lparr>game = None,
      spawned =
        [GoPlayChess (Some 2) (Some 3),
         GoForwardFromWebsocketToChannel (Some 2) whiteChannel,
         GoForwardFromWebsocketToChannel (Some 3) blackChannel],
      alive = True,
      calls = [(Some 2, HandlerDone), (Some 3, HandlerDone)]\<rparr> \<and>
   run_schedule [0, 0, 1, 1, 1, 2, 2, 3, 3, 3] (arrivals [None, Some 3, Some 4, Some 5]) =
     \<lparr>game = Some \<lparr>whiteWebsocket = None, blackWebsocket = Some 3\<rparr>,
      spawned =
        [GoPlayChess None (Some 3),
         GoForwardFromWebsocketToChannel None whiteChannel,
         GoForwardFromWebsocketToChannel (Some 3) blackChannel],
      alive = False,
      calls = [(None, HandlerDone), (Some 3, AtClear), (Some 4, AtTest), (Some 5, AtTest)]\<rparr>"
  by (simp add: arrivals_def handler_step_def NewChessGame_def Join_def
      playChess_def relay_start_def WriteJSON_def forwardFromWebsocketToChannel_def)

section \<open>The start broadcast\<close>



section \<open>Malformed moves\<close>

text \<open>
  C4. A move whose \<^verbatim>\<open>to\<close> field is missing violates the \<^verbatim>\<open>required_if\<close> tag of the field.
  The relay loop forwards it all the same: sent by white on white's turn, it is written
  to the black connection and the turn flips to black. Nothing in \<^verbatim>\<open>playChess\<close> or in the
  reader task looks at the fields other than \<^verbatim>\<open>Type\<close>.
\<close>

theorem malformed_move_is_forwarded:
  "\<not> to_required_if_move move_without_to \<and>
   playChess (Some 2) (Some 3) [(whiteChannel, move_without_to)] =
     \<lparr>turnWhite = False,
      sent = [(2, start_white), (3, start_black), (3, move_without_to)],
      status = Running\<rparr>"
  by (simp add: to_required_if_move_def move_without_to_def playChess_def relay_start_def
      WriteJSON_def assign_turnWhite_def)

section \<open>Termination of the relay loop\<close>

text \<open>
  C5. When the signal a reader task publishes on a read failure
  (\<^verbatim>\<open>Message{Type: "error"}\<close>) is received from either channel while the loop runs, the
  loop returns. The writes of the whole run are the writes made before the signal:
  whatever arrives afterwards on either channel is not forwarded, and the state stays
  returned.
\<close>

theorem relay_stops_at_error_signal:
  assumes "status (playChess w b evs1) = Running"
  shows "playChess w b (evs1 @ (ch, error_signal) # evs2) =
    (playChess w b evs1)\<lparr>status := Returned\<rparr>"
proof -
  let ?r = "playChess w b evs1"
  have "select_case w b (ch, error_signal) ?r = ?r\<lparr>status := Returned\<rparr>"
    by (cases ch) (simp_all add: error_signal_def)
  then have "relay_loop w b ?r ((ch, error_signal) # evs2) = ?r\<lparr>status := Returned\<rparr>"
    using assms by (simp add: relay_loop_stopped)
  then show ?thesis
    by (simp add: playChess_def relay_loop_append)
qed

text \<open>White moves, then white's reader reports a failure: black's later move goes nowhere.\<close>

theorem relay_stops_at_error_signal_witness:
  "status (playChess (Some 2) (Some 3) [(whiteChannel, e2e4)]) = Running \<and>
   playChess (Some 2) (Some 3)
     [(whiteChannel, e2e4), (whiteChannel, error_signal), (blackChannel, e7e5)] =
     \<lparr>turnWhite = False, sent = [(2, start_white), (3, start_black), (3, e2e4)],
      status = Returned\<rparr>"
proof -
  have p: "playChess (Some 2) (Some 3) [(whiteChannel, e2e4)] =
     \<lparr>turnWhite = False, sent = [(2, start_white), (3, start_black), (3, e2e4)],
      status = Running\<rparr>"
    by (simp add: playChess_def relay_start_def WriteJSON_def assign_turnWhite_def e2e4_def)
  then have h: "status (playChess (Some 2) (Some 3) [(whiteChannel, e2e4)]) = Running"
    by simp
  from relay_stops_at_error_signal[OF h, of whiteChannel "[(blackChannel, e7e5)]"] p h
  show ?thesis by simp
qed

text \<open>
  C9. Any message whose \<^verbatim>\<open>Type\<close> is \<^verbatim>\<open>error\<close> makes the running loop return, from either
  channel, whoever holds the turn and whatever its other fields are: a message a client
  wrote itself does so as well as the reader task's signal. Nothing is written and no
  later message is received.
\<close>

theorem relay_returns_on_any_error:
  assumes "status r = Running" and "Type m = ''error''"
  shows "select_case w b (ch, m) r = r\<lparr>status := Returned\<rparr> \<and>
         relay_loop w b r ((ch, m) # evs) = r\<lparr>status := Returned\<rparr>"
proof -
  have "select_case w b (ch, m) r = r\<lparr>status := Returned\<rparr>"
    using assms(2) by (cases ch) simp_all
  then show ?thesis
    using assms(1) by (simp add: relay_loop_stopped)
qed

text \<open>Black sends an error-kind message of its own while it is white's turn.\<close>

theorem relay_returns_on_any_error_witness:
  "relay_loop (Some 2) (Some 3) \<lparr>turnWhite = True, sent = [], status = Running\<rparr>
     [(blackChannel, client_error), (whiteChannel, e2e4)] =
     \<lparr>turnWhite = True, sent = [], status = Returned\<rparr>"
proof -
  have h: "status \<lparr>turnWhite = True, sent = [], status = Running\<rparr> = Running" by simp
  have t: "Type client_error = ''error''" by (simp add: client_error_def)
  from relay_returns_on_any_error[OF h t, of "Some 2" "Some 3" blackChannel "[(whiteChannel, e2e4)]"]
  show ?thesis by simp
qed

section \<open>Joining a full session\<close>

text \<open>
  C6. \<^verbatim>\<open>Join\<close> on a game whose black slot is filled returns
  \<^verbatim>\<open>ErrCannotJoinStartedGame\<close> and changes nothing: the game, with both slots, is as
  before, and no goroutine is started, so the late connection is handed to no relay loop
  or reader task. The turn is a local variable of the \<^verbatim>\<open>playChess\<close> goroutine the first
  join started; \<^verbatim>\<open>Join\<close> has no access to it.
\<close>

theorem Join_full_rejected:
  "blackWebsocket g \<noteq> None \<Longrightarrow> Join g ws = (Some ErrCannotJoinStartedGame, g, [])"
  by (simp add: Join_def)

theorem Join_full_rejected_witness:
  "blackWebsocket \<lparr>whiteWebsocket = Some 2, blackWebsocket = Some 3\<rparr> \<noteq> None \<and>
   Join \<lparr>whiteWebsocket = Some 2, blackWebsocket = Some 3\<rparr> (Some 4) =
     (Some ErrCannotJoinStartedGame, \<lparr>whiteWebsocket = Some 2, blackWebsocket = Some 3\<rparr>, [])"
proof -
  have h: "blackWebsocket \<lparr>whiteWebsocket = Some 2, blackWebsocket = Some 3\<rparr> \<noteq> None"
    by simp
  from h Join_full_rejected[OF h, of "Some 4"] show ?thesis by simp
qed

text \<open>
  C10. \<^verbatim>\<open>NewChessGame\<close> gives a game whose white slot holds the given connection and whose
  black slot is empty. A \<^verbatim>\<open>Join\<close> that succeeds writes the black slot only: the white slot
  of the game afterwards is the white slot before.
\<close>

theorem NewChessGame_Join_frame:
  "whiteWebsocket (NewChessGame ws) = ws \<and> blackWebsocket (NewChessGame ws) = None \<and>
   (Join g ws' = (None, g', gs) \<longrightarrow>
      whiteWebsocket g' = whiteWebsocket g \<and> blackWebsocket g' = ws' \<and>
      g' = g\<lparr>blackWebsocket := ws'\<rparr>)"
  by (auto simp: NewChessGame_def Join_def Let_def split: if_splits)

theorem NewChessGame_Join_frame_witness:
  "Join (NewChessGame (Some 2)) (Some 3) =
     (None, \<lparr>whiteWebsocket = Some 2, blackWebsocket = Some 3\<rparr>,
      [GoPlayChess (Some 2) (Some 3),
       GoForwardFromWebsocketToChannel (Some 2) whiteChannel,
       GoForwardFromWebsocketToChannel (Some 3) blackChannel]) \<and>
   whiteWebsocket \<lparr>whiteWebsocket = Some 2, blackWebsocket = Some 3\<rparr> =
     whiteWebsocket (NewChessGame (Some 2)) \<and>
   blackWebsocket (NewChessGame (Some 2)) = None"
proof -
  have j: "Join (NewChessGame (Some 2)) (Some 3) =
     (None, \<lparr>whiteWebsocket = Some 2, blackWebsocket = Some 3\<rparr>,
      [GoPlayChess (Some 2) (Some 3),
       GoForwardFromWebsocketToChannel (Some 2) whiteChannel,
       GoForwardFromWebsocketToChannel (Some 3) blackChannel])"
    by (simp add: Join_def NewChessGame_def)
  from NewChessGame_Join_frame[of "Some 2" "NewChessGame (Some 2)" "Some 3"
      "\<lparr>whiteWebsocket = Some 2, blackWebsocket = Some 3\<rparr>"
      "[GoPlayChess (Some 2) (Some 3),
        GoForwardFromWebsocketToChannel (Some 2) whiteChannel,
        GoForwardFromWebsocketToChannel (Some 3) blackChannel]"] j
  show ?thesis by simp
qed

section \<open>The reader task\<close>

text \<open>
  C7. White's connection fails first: its reader publishes the error signal, the relay
  loop receives it and returns, and the reader returns and closes the connection.
  Black's connection fails afterwards. The channels are unbuffered and the relay loop
  has stopped receiving, so black's reader stays blocked in the send of its signal: the
  signal is never published, the session observes none for this failed connection, the
  reader does not terminate and \<^verbatim>\<open>ws.Close()\<close> never runs.
\<close>

theorem second_reader_blocks_forever:
  "status (playChess (Some 2) (Some 3) [(whiteChannel, error_signal)]) = Returned \<and>
   forwardFromWebsocketToChannel (Some 2)
     (receives whiteChannel (Some 2) (Some 3) (relay_start (Some 2) (Some 3))
        [(whiteChannel, error_signal)])
     [None] = \<lparr>published = [error_signal], closed = True, rstatus = Finished\<rparr> \<and>
   forwardFromWebsocketToChannel (Some 3)
     (receives blackChannel (Some 2) (Some 3) (relay_start (Some 2) (Some 3))
        [(whiteChannel, error_signal)])
     [None] = \<lparr>published = [], closed = False, rstatus = Sending\<rparr>"
  by (simp add: forwardFromWebsocketToChannel_def playChess_def relay_start_def WriteJSON_def
      error_signal_def)

section \<open>What a forwarded message carries\<close>




end
